theory Spec2Isabelle
  imports Complex_Main "HOL-Library.Sublist"
begin

section \<open>Numbers and strings of the scripts\<close>

text \<open>
  The scripts are JavaScript. A JavaScript number is modelled as a rational: the value
  of the decimal literal in the JSON that the Figma API returns. Binary floating point
  rounding is not modelled. A number is absent (\<open>undefined\<close>) when an \<open>option\<close> is
  \<open>None\<close>. A string is a list of code units in the range U+0000..U+00FF.
\<close>

type_synonym number = rat

text \<open>\<^verbatim>\<open>Math.round(x)\<close>: the nearest integer, a tie going up.\<close>

definition Math_round :: "number \<Rightarrow> int" where
  "Math_round x = \<lfloor>x + 1 / 2\<rfloor>"

definition digit_char :: "nat \<Rightarrow> char" where
  "digit_char d = ''0123456789abcdef'' ! d"

text \<open>The digits of a natural number in radix \<open>b\<close>, most significant first.\<close>

function radix_digits :: "nat \<Rightarrow> nat \<Rightarrow> string" where
  "radix_digits b n =
     (if n < b \<or> b \<le> 1 then [digit_char n]
      else radix_digits b (n div b) @ [digit_char (n mod b)])"
  by pat_completeness auto
termination
  by (relation "measure (\<lambda>(b, n). n)") auto

declare radix_digits.simps [simp del]

text \<open>\<^verbatim>\<open>n.toString(radix)\<close> of an integer-valued number, and \<^verbatim>\<open>`${n}`\<close> for radix 10.\<close>

definition int_toString :: "nat \<Rightarrow> int \<Rightarrow> string" where
  "int_toString b k =
     (if k < 0 then CHR ''-'' # radix_digits b (nat (- k)) else radix_digits b (nat k))"

text \<open>
  The decimal digits after the point of a fraction \<open>0 \<le> q < 1\<close>, at most \<open>fuel\<close> of them.
\<close>

fun fraction_digits :: "nat \<Rightarrow> number \<Rightarrow> string" where
  "fraction_digits 0 q = []"
| "fraction_digits (Suc fuel) q =
     (if q = 0 then []
      else digit_char (nat \<lfloor>10 * q\<rfloor>) # fraction_digits fuel (10 * q - of_int \<lfloor>10 * q\<rfloor>))"

text \<open>
  \<^verbatim>\<open>`${x}`\<close> of a number: an integer prints as its decimal digits, any other value as
  sign, integer part, point and decimal fraction (17 digits at most; the exponent
  notation of very large and very small values is not modelled).
\<close>

definition number_toString :: "number \<Rightarrow> string" where
  "number_toString x =
     (if x = of_int \<lfloor>x\<rfloor> then int_toString 10 \<lfloor>x\<rfloor>
      else (if x < 0 then ''-'' else '''')
        @ radix_digits 10 (nat \<lfloor>\<bar>x\<bar>\<rfloor>) @ ''.''
        @ fraction_digits 17 (\<bar>x\<bar> - of_int \<lfloor>\<bar>x\<bar>\<rfloor>))"

text \<open>\<^verbatim>\<open>s.padStart(n, c)\<close> with a one-character filler.\<close>

definition padStart :: "nat \<Rightarrow> char \<Rightarrow> string \<Rightarrow> string" where
  "padStart n c s = replicate (n - length s) c @ s"

section \<open>Colors (extract-figma-cards.js)\<close>

text \<open>
  A Figma paint color \<^verbatim>\<open>{r, g, b, a}\<close>; the alpha channel may be absent. The fields
  carry the prefix \<open>col_\<close>, the one-letter names being wanted for variables.
\<close>

record color =
  col_r :: number
  col_g :: number
  col_b :: number
  col_a :: "number option"

text \<open>\<^verbatim>\<open>figmaColorToCSS(figmaColor)\<close>; \<open>None\<close> is a missing color.\<close>

definition figmaColorToCSS :: "color option \<Rightarrow> string" where
  "figmaColorToCSS figmaColor =
     (case figmaColor of
        None \<Rightarrow> ''transparent''
      | Some c \<Rightarrow>
          (let alpha = (case col_a c of None \<Rightarrow> 1 | Some v \<Rightarrow> v)
           in ''rgba('' @ int_toString 10 (Math_round (col_r c * 255)) @ '', ''
              @ int_toString 10 (Math_round (col_g c * 255)) @ '', ''
              @ int_toString 10 (Math_round (col_b c * 255)) @ '', ''
              @ number_toString alpha @ '')''))"

text \<open>The \<^verbatim>\<open>hex\<close> string that \<^verbatim>\<open>mapToDesignToken\<close> computes from the three channels.\<close>

definition hex2 :: "number \<Rightarrow> string" where
  "hex2 x = padStart 2 CHR ''0'' (int_toString 16 (Math_round (x * 255)))"

definition hexKey :: "color \<Rightarrow> string" where
  "hexKey c = ''#'' @ hex2 (col_r c) @ hex2 (col_g c) @ hex2 (col_b c)"

definition colorMap :: "(string \<times> string) list" where
  "colorMap =
     [(''#ffffff'', ''var(--white)''),
      (''#fcfcfc'', ''var(--white)''),
      (''#030303'', ''var(--black)''),
      (''#6b7280'', ''var(--gray-500)''),
      (''#374151'', ''var(--gray-700)''),
      (''#1f2937'', ''var(--gray-800)''),
      (''#f3f4f6'', ''var(--gray-100)''),
      (''#e5e7eb'', ''var(--gray-200)''),
      (''#3b82f6'', ''var(--blue-500)''),
      (''#1d4ed8'', ''var(--blue-700)''),
      (''#dbeafe'', ''var(--blue-100)''),
      (''#6366f1'', ''var(--indigo-500)''),
      (''#8b5cf6'', ''var(--violet-500)''),
      (''#ec4899'', ''var(--pink-500)''),
      (''#f472b6'', ''var(--pink-400)''),
      (''#fce7f3'', ''var(--pink-100)'')]"

text \<open>
  \<^verbatim>\<open>mapToDesignToken(color)\<close>. \<^verbatim>\<open>colorMap[hex] || figmaColorToCSS(color)\<close> takes the
  table's value unless the key is absent or the value is the empty string.
\<close>

definition mapToDesignToken :: "color option \<Rightarrow> string" where
  "mapToDesignToken color =
     (case color of
        None \<Rightarrow> ''var(--fg-text)''
      | Some c \<Rightarrow>
          (case map_of colorMap (hexKey c) of
             None \<Rightarrow> figmaColorToCSS color
           | Some token \<Rightarrow> if token = [] then figmaColorToCSS color else token))"

section \<open>The name slugifier\<close>

text \<open>
  \<^verbatim>\<open>name.toLowerCase().replace(/\s+/g, '-').replace(/[^a-z0-9-]/g, '')\<close>, written out
  in \<^verbatim>\<open>generateHTMLStructure\<close>, \<^verbatim>\<open>generateCSSClasses\<close> and the batch driver.
\<close>

text \<open>The class \<^verbatim>\<open>\s\<close> below U+0100: tab, the line ends, space and the no-break space.\<close>

definition is_space :: "char \<Rightarrow> bool" where
  "is_space c = ((of_char c :: nat) \<in> {9, 10, 11, 12, 13, 32, 160})"

text \<open>\<^verbatim>\<open>toLowerCase\<close> below U+0100: A-Z and the capital letters of Latin-1.\<close>

definition lower_char :: "char \<Rightarrow> char" where
  "lower_char c =
     (let n = (of_char c :: nat)
      in if (65 \<le> n \<and> n \<le> 90) \<or> (192 \<le> n \<and> n \<le> 222 \<and> n \<noteq> 215)
         then char_of (n + 32) else c)"

definition toLowerCase :: "string \<Rightarrow> string" where
  "toLowerCase s = map lower_char s"

text \<open>\<^verbatim>\<open>replace(/\s+/g, '-')\<close>: every maximal run of white space becomes one hyphen.\<close>

function replace_spaces :: "string \<Rightarrow> string" where
  "replace_spaces [] = []"
| "replace_spaces (c # cs) =
     (if is_space c then CHR ''-'' # replace_spaces (dropWhile is_space cs)
      else c # replace_spaces cs)"
  by pat_completeness auto
termination
  by (relation "measure length") (auto simp: less_Suc_eq_le length_dropWhile_le)

text \<open>The class \<^verbatim>\<open>[a-z0-9-]\<close>; \<^verbatim>\<open>replace(/[^a-z0-9-]/g, '')\<close> keeps its members.\<close>

definition is_slug_char :: "char \<Rightarrow> bool" where
  "is_slug_char c =
     (let n = (of_char c :: nat)
      in (97 \<le> n \<and> n \<le> 122) \<or> (48 \<le> n \<and> n \<le> 57) \<or> n = 45)"

definition slugify :: "string \<Rightarrow> string" where
  "slugify name = filter is_slug_char (replace_spaces (toLowerCase name))"

section \<open>Figma nodes\<close>

record paint =
  paint_type :: string
  paint_color :: "color option"

text \<open>\<^verbatim>\<open>absoluteBoundingBox\<close>; the fields are \<^verbatim>\<open>x\<close>, \<^verbatim>\<open>y\<close>, \<^verbatim>\<open>width\<close>, \<^verbatim>\<open>height\<close>.\<close>

record bbox =
  bb_x :: "number option"
  bb_y :: "number option"
  bb_width :: "number option"
  bb_height :: "number option"

text \<open>The \<^verbatim>\<open>style\<close> object of a text node.\<close>

record typeStyle =
  fontFamily :: "string option"
  fontSize :: "number option"
  fontWeight :: "number option"
  letterSpacing :: "number option"
  lineHeightPx :: "number option"

text \<open>
  The properties of a node that the script reads. An array that is absent and an empty
  array are treated alike by every test of the script (\<^verbatim>\<open>fills && fills.length > 0\<close>,
  \<^verbatim>\<open>!node.children\<close>), so \<open>fills\<close>, \<open>strokes\<close> and \<open>children\<close> are lists.
\<close>

record props =
  node_id :: string
  node_name :: string
  node_type :: string
  absoluteBoundingBox :: "bbox option"
  cornerRadius :: "number option"
  fills :: "paint list"
  strokes :: "paint list"
  strokeWeight :: "number option"
  style :: "typeStyle option"
  characters :: "string option"

datatype node = Node (props: props) (children: "node list")

text \<open>The value of \<^verbatim>\<open>data.nodes[nodeId]\<close>: an object with a \<^verbatim>\<open>document\<close>, which may be absent.\<close>

record nodeData =
  document :: "node option"

text \<open>\<^verbatim>\<open>v || d\<close> on a number: absent and zero are falsy.\<close>

definition num_or :: "number option \<Rightarrow> number \<Rightarrow> number" where
  "num_or v d = (case v of None \<Rightarrow> d | Some n \<Rightarrow> if n = 0 then d else n)"

text \<open>\<^verbatim>\<open>box?.field\<close>\<close>

definition opt_field :: "('a \<Rightarrow> 'b option) \<Rightarrow> 'a option \<Rightarrow> 'b option" where
  "opt_field f box = (case box of None \<Rightarrow> None | Some v \<Rightarrow> f v)"

section \<open>Text styles\<close>

text \<open>A property value of the text style object: a string or a number.\<close>

datatype jsval = Str string | Num number

text \<open>\<^verbatim>\<open>getTextStyle(node)\<close>: the entries of the object it returns, in insertion order.\<close>

definition getTextStyle :: "props \<Rightarrow> (string \<times> jsval) list" where
  "getTextStyle n =
     (case style n of
        None \<Rightarrow> []
      | Some st \<Rightarrow>
          [(''fontFamily'',
              Str (case fontFamily st of
                     None \<Rightarrow> ''var(--font-family-base)''
                   | Some f \<Rightarrow> if f = [] then ''var(--font-family-base)'' else f)),
           (''fontSize'',
              Str (case fontSize st of
                     None \<Rightarrow> ''var(--text-base-regular-size-rem)''
                   | Some v \<Rightarrow> if v = 0 then ''var(--text-base-regular-size-rem)''
                              else number_toString v @ ''px'')),
           (''fontWeight'',
              (case fontWeight st of
                 None \<Rightarrow> Str ''400''
               | Some v \<Rightarrow> if v = 0 then Str ''400'' else Num v)),
           (''letterSpacing'',
              Str (case letterSpacing st of
                     None \<Rightarrow> ''normal''
                   | Some v \<Rightarrow> if v = 0 then ''normal'' else number_toString v @ ''px'')),
           (''lineHeight'',
              Str (case lineHeightPx st of
                     None \<Rightarrow> ''normal''
                   | Some v \<Rightarrow> if v = 0 then ''normal'' else number_toString v @ ''px''))])"

text \<open>\<^verbatim>\<open>`${value}`\<close>\<close>

definition jsval_toString :: "jsval \<Rightarrow> string" where
  "jsval_toString v = (case v of Str s \<Rightarrow> s | Num n \<Rightarrow> number_toString n)"

text \<open>
  \<^verbatim>\<open>JSON.stringify\<close> of a string: quotes around it, the quote, the backslash and the
  control characters escaped.
\<close>

definition json_escape :: "char \<Rightarrow> string" where
  "json_escape c =
     (let n = (of_char c :: nat)
      in if n = 34 then [CHR 0x5C, CHR 0x22]
         else if n = 92 then [CHR 0x5C, CHR 0x5C]
         else if n = 8 then CHR 0x5C # ''b''
         else if n = 9 then CHR 0x5C # ''t''
         else if n = 10 then CHR 0x5C # ''n''
         else if n = 12 then CHR 0x5C # ''f''
         else if n = 13 then CHR 0x5C # ''r''
         else if n < 32 then CHR 0x5C # ''u'' @ padStart 4 CHR ''0'' (radix_digits 16 n)
         else [c])"

definition json_string :: "string \<Rightarrow> string" where
  "json_string s = [CHR 0x22] @ concat (map json_escape s) @ [CHR 0x22]"

definition json_value :: "jsval \<Rightarrow> string" where
  "json_value v = (case v of Str s \<Rightarrow> json_string s | Num n \<Rightarrow> number_toString n)"

text \<open>\<^verbatim>\<open>xs.join(sep)\<close>\<close>

fun join :: "string \<Rightarrow> string list \<Rightarrow> string" where
  "join sep [] = []"
| "join sep [s] = s"
| "join sep (s # t # ts) = s @ sep @ join sep (t # ts)"

text \<open>\<^verbatim>\<open>JSON.stringify(obj)\<close> of an object given by its entries.\<close>

definition JSON_stringify :: "(string \<times> jsval) list \<Rightarrow> string" where
  "JSON_stringify entries =
     ''{'' @ join '','' (map (\<lambda>(k, v). json_string k @ '':'' @ json_value v) entries) @ ''}''"

section \<open>Card specifications\<close>

text \<open>
  The child specification object; \<^verbatim>\<open>dimensions\<close> and \<^verbatim>\<open>styles\<close> are flattened into
  the record, and the fields that a specification has too carry the prefix \<open>child_\<close>.
\<close>

record childSpec =
  child_id :: string
  child_name :: string
  child_type :: string
  depth :: nat
  child_x :: number
  child_y :: number
  child_width :: number
  child_height :: number
  child_backgroundColor :: "string option"
  child_borderRadius :: number
  textContent :: "string option"
  textStyle :: "(string \<times> jsval) list option"

text \<open>
  The specification object. The two \<^verbatim>\<open>Set\<close>s are lists without repetition, in insertion
  order, which is the order \<^verbatim>\<open>Array.from\<close> reads them in.
\<close>

record specs =
  spec_id :: string
  spec_name :: string
  spec_type :: string
  spec_width :: number
  spec_height :: number
  backgroundColor :: "string option"
  borderRadius :: number
  borderWidth :: number
  borderColor :: "string option"
  spec_children :: "childSpec list"
  spec_text :: "string list"
  colors :: "string list"
  typography :: "string list"

text \<open>\<^verbatim>\<open>set.add(v)\<close>\<close>

definition Set_add :: "'a list \<Rightarrow> 'a \<Rightarrow> 'a list" where
  "Set_add xs v = (if v \<in> set xs then xs else xs @ [v])"

text \<open>
  \<^verbatim>\<open>fills && fills.length > 0\<close>, \<^verbatim>\<open>fill = fills[0]\<close>, \<^verbatim>\<open>fill.type === 'SOLID'\<close>: the
  first paint when it is solid.
\<close>

definition first_solid :: "paint list \<Rightarrow> paint option" where
  "first_solid ps =
     (case ps of [] \<Rightarrow> None
      | p # _ \<Rightarrow> if paint_type p = ''SOLID'' then Some p else None)"

text \<open>A string in a condition: absent and empty are falsy.\<close>

definition truthy :: "string option \<Rightarrow> bool" where
  "truthy s = (case s of None \<Rightarrow> False | Some t \<Rightarrow> t \<noteq> [])"

text \<open>\<^verbatim>\<open>child.type === 'TEXT' && child.characters\<close>\<close>

definition has_text :: "props \<Rightarrow> bool" where
  "has_text child = (node_type child = ''TEXT'' \<and> truthy (characters child))"

text \<open>The \<^verbatim>\<open>childSpec\<close> that the callback of \<^verbatim>\<open>traverseChildren\<close> pushes for a child.\<close>

definition childSpecOf :: "props \<Rightarrow> nat \<Rightarrow> childSpec" where
  "childSpecOf child d =
     \<lparr>child_id = node_id child,
      child_name = node_name child,
      child_type = node_type child,
      depth = d,
      child_x = num_or (opt_field bb_x (absoluteBoundingBox child)) 0,
      child_y = num_or (opt_field bb_y (absoluteBoundingBox child)) 0,
      child_width = num_or (opt_field bb_width (absoluteBoundingBox child)) 0,
      child_height = num_or (opt_field bb_height (absoluteBoundingBox child)) 0,
      child_backgroundColor =
        (case first_solid (fills child) of
           None \<Rightarrow> None
         | Some fill \<Rightarrow> Some (mapToDesignToken (paint_color fill))),
      child_borderRadius = num_or (cornerRadius child) 0,
      textContent = (if has_text child then characters child else None),
      textStyle = (if has_text child then Some (getTextStyle child) else None)\<rparr>"

text \<open>The effect of the callback on \<^verbatim>\<open>specs\<close>, before it descends into the child.\<close>

definition visit :: "props \<Rightarrow> nat \<Rightarrow> specs \<Rightarrow> specs" where
  "visit child d specs =
     specs\<lparr>colors :=
             (case first_solid (fills child) of
                None \<Rightarrow> colors specs
              | Some fill \<Rightarrow> Set_add (colors specs) (figmaColorToCSS (paint_color fill))),
           typography :=
             (if has_text child
              then Set_add (typography specs) (JSON_stringify (getTextStyle child))
              else typography specs),
           spec_children := spec_children specs @ [childSpecOf child d]\<rparr>"

text \<open>
  \<^verbatim>\<open>traverseChildren(node, depth)\<close>; \<open>forEach_child\<close> is its \<^verbatim>\<open>node.children.forEach\<close>.
\<close>

fun traverseChildren :: "node \<Rightarrow> nat \<Rightarrow> specs \<Rightarrow> specs"
  and forEach_child :: "node list \<Rightarrow> nat \<Rightarrow> specs \<Rightarrow> specs" where
  "traverseChildren (Node p cs) d specs = forEach_child cs d specs"
| "forEach_child [] d specs = specs"
| "forEach_child (child # rest) d specs =
     forEach_child rest d (traverseChildren child (d + 1) (visit (props child) d specs))"

text \<open>The specification that \<^verbatim>\<open>extractCardSpecs\<close> builds from a document.\<close>

definition rootSpecs :: "props \<Rightarrow> specs" where
  "rootSpecs doc =
     (let specs =
        \<lparr>spec_id = node_id doc,
         spec_name = node_name doc,
         spec_type = node_type doc,
         spec_width = num_or (opt_field bb_width (absoluteBoundingBox doc)) 0,
         spec_height = num_or (opt_field bb_height (absoluteBoundingBox doc)) 0,
         backgroundColor = None,
         borderRadius = num_or (cornerRadius doc) 0,
         borderWidth = 0,
         borderColor = None,
         spec_children = [],
         spec_text = [],
         colors = [],
         typography = []\<rparr>;
      specs =
        (case first_solid (fills doc) of
           None \<Rightarrow> specs
         | Some fill \<Rightarrow>
             specs\<lparr>backgroundColor := Some (mapToDesignToken (paint_color fill)),
                   colors := Set_add (colors specs) (figmaColorToCSS (paint_color fill))\<rparr>);
      specs =
        (case strokes doc of
           [] \<Rightarrow> specs
         | stroke # _ \<Rightarrow>
             (let specs = specs\<lparr>borderWidth := num_or (strokeWeight doc) 1\<rparr>
              in if paint_type stroke = ''SOLID''
                 then specs\<lparr>borderColor := Some (mapToDesignToken (paint_color stroke)),
                            colors := Set_add (colors specs)
                                        (figmaColorToCSS (paint_color stroke))\<rparr>
                 else specs))
      in specs)"

definition extractCardSpecs :: "nodeData option \<Rightarrow> specs option" where
  "extractCardSpecs nd =
     (case nd of
        None \<Rightarrow> None
      | Some n \<Rightarrow>
          (case document n of
             None \<Rightarrow> None
           | Some doc \<Rightarrow> Some (traverseChildren doc 0 (rootSpecs (props doc)))))"

section \<open>The generated HTML and CSS\<close>

text \<open>One line of \<^verbatim>\<open>generateHTMLStructure\<close> for a child.\<close>

definition html_line :: "childSpec \<Rightarrow> string" where
  "html_line child =
     (let childClass = slugify (child_name child);
          indent = concat (replicate (depth child + 1) ''  '');
          empty_div = indent @ ''<div class='' @ [CHR 0x22] @ childClass @ [CHR 0x22]
                @ ''></div>\<newline>''
      in case textContent child of
           None \<Rightarrow> empty_div
         | Some t \<Rightarrow>
             if t = [] then empty_div
             else indent @ ''<span class='' @ [CHR 0x22] @ childClass @ [CHR 0x22] @ ''>''
                  @ t @ ''</span>\<newline>'')"

definition generateHTMLStructure :: "specs \<Rightarrow> string" where
  "generateHTMLStructure specs =
     (let mainClass = slugify (spec_name specs)
      in ''<div class='' @ [CHR 0x22] @ mainClass @ [CHR 0x22] @ ''>\<newline>''
         @ concat (map html_line (spec_children specs))
         @ ''</div>'')"

text \<open>The rule block of \<^verbatim>\<open>generateCSSClasses\<close> for the root.\<close>

definition root_block :: "specs \<Rightarrow> string" where
  "root_block specs =
     ''.'' @ slugify (spec_name specs) @ '' {\<newline>''
     @ ''  width: '' @ number_toString (spec_width specs) @ ''px;\<newline>''
     @ ''  height: '' @ number_toString (spec_height specs) @ ''px;\<newline>''
     @ (case backgroundColor specs of
          None \<Rightarrow> []
        | Some v \<Rightarrow> if v = [] then [] else ''  background-color: '' @ v @ '';\<newline>'')
     @ (if borderRadius specs \<noteq> 0
        then ''  border-radius: '' @ number_toString (borderRadius specs) @ ''px;\<newline>''
        else [])
     @ (if borderWidth specs \<noteq> 0
        then ''  border-width: '' @ number_toString (borderWidth specs) @ ''px;\<newline>''
        else [])
     @ (case borderColor specs of
          None \<Rightarrow> []
        | Some v \<Rightarrow> if v = [] then [] else ''  border-color: '' @ v @ '';\<newline>'')
     @ ''}\<newline>\<newline>''"

text \<open>The rule block for a child; \<^verbatim>\<open>Object.entries(child.textStyle)\<close> gives one line each.\<close>

definition child_block :: "string \<Rightarrow> childSpec \<Rightarrow> string" where
  "child_block mainClass child =
     ''.'' @ mainClass @ '' .'' @ slugify (child_name child) @ '' {\<newline>''
     @ ''  position: absolute;\<newline>''
     @ ''  left: '' @ number_toString (child_x child) @ ''px;\<newline>''
     @ ''  top: '' @ number_toString (child_y child) @ ''px;\<newline>''
     @ ''  width: '' @ number_toString (child_width child) @ ''px;\<newline>''
     @ ''  height: '' @ number_toString (child_height child) @ ''px;\<newline>''
     @ (case child_backgroundColor child of
          None \<Rightarrow> []
        | Some v \<Rightarrow> if v = [] then [] else ''  background-color: '' @ v @ '';\<newline>'')
     @ (if child_borderRadius child \<noteq> 0
        then ''  border-radius: '' @ number_toString (child_borderRadius child) @ ''px;\<newline>''
        else [])
     @ (case textStyle child of
          None \<Rightarrow> []
        | Some entries \<Rightarrow>
            concat (map (\<lambda>(prop, v). ''  '' @ prop @ '': '' @ jsval_toString v @ '';\<newline>'')
                     entries))
     @ ''}\<newline>\<newline>''"

definition generateCSSClasses :: "specs \<Rightarrow> string" where
  "generateCSSClasses specs =
     root_block specs
     @ concat (map (child_block (slugify (spec_name specs))) (spec_children specs))"

section \<open>The batch extractor (extract-figma-cards.js)\<close>

text \<open>A thrown value: an \<^verbatim>\<open>Error\<close> or a \<^verbatim>\<open>TypeError\<close>, with its message.\<close>

datatype error = Error string | TypeError string

definition message :: "error \<Rightarrow> string" where
  "message e = (case e of Error m \<Rightarrow> m | TypeError m \<Rightarrow> m)"

text \<open>
  An HTTP response as the scripts read it: \<^verbatim>\<open>res.ok\<close>, \<^verbatim>\<open>res.status\<close>,
  \<^verbatim>\<open>res.statusText\<close>, \<^verbatim>\<open>await res.text()\<close> and \<^verbatim>\<open>await res.json()\<close>, which rejects
  when the body is not JSON.
\<close>

record 'a response =
  ok :: bool
  status :: nat
  statusText :: string
  body_text :: string
  body_json :: "error + 'a"

text \<open>
  The JSON of the nodes endpoint: \<^verbatim>\<open>data.nodes\<close>, absent or an object from node IDs to
  node data or \<^verbatim>\<open>null\<close>.
\<close>

record nodes_body =
  nodes :: "(string \<times> nodeData option) list option"

text \<open>
  The network is a function from the URL to the outcome of \<^verbatim>\<open>fetch\<close>: a rejection or a
  response. The token header is the same in every call of a run.
\<close>

type_synonym 'a network = "string \<Rightarrow> error + 'a response"

definition figmaRequest :: "'a network \<Rightarrow> string \<Rightarrow> error + 'a" where
  "figmaRequest fetch endpoint =
     (case fetch (''https://api.figma.com/v1/'' @ endpoint) of
        Inl e \<Rightarrow> Inl e
      | Inr res \<Rightarrow>
          if \<not> ok res then Inl (Error (''Figma API error: '' @ statusText res))
          else body_json res)"

definition getNodeDetails ::
  "nodes_body network \<Rightarrow> string \<Rightarrow> string \<Rightarrow> error + nodeData option" where
  "getNodeDetails fetch FILE_ID nodeId =
     (case figmaRequest fetch (''files/'' @ FILE_ID @ ''/nodes?ids='' @ nodeId) of
        Inl e \<Rightarrow> Inl e
      | Inr data \<Rightarrow>
          (case nodes data of
             None \<Rightarrow> Inl (TypeError ''Cannot read properties of undefined'')
           | Some m \<Rightarrow> Inr (case map_of m nodeId of None \<Rightarrow> None | Some v \<Rightarrow> v)))"

text \<open>The object of \<^verbatim>\<open>generateSpecFile\<close>; \<open>now\<close> is \<^verbatim>\<open>new Date().toISOString()\<close>.\<close>

record specFile =
  cardName :: string
  extractedAt :: string
  specifications :: specs
  designTokens_colors :: "string list"
  designTokens_typography :: "string list"
  htmlStructure :: string
  cssClasses :: string

definition generateSpecFile :: "string \<Rightarrow> specs \<Rightarrow> string \<Rightarrow> specFile" where
  "generateSpecFile now specs name =
     \<lparr>cardName = name,
      extractedAt = now,
      specifications = specs,
      designTokens_colors = colors specs,
      designTokens_typography = typography specs,
      htmlStructure = generateHTMLStructure specs,
      cssClasses = generateCSSClasses specs\<rparr>"

text \<open>The summary that is written last, one entry for every extracted card.\<close>

record card_summary =
  card_name :: string
  card_children :: nat
  card_colors :: nat
  card_typography :: nat

record summary =
  summary_extractedAt :: string
  fileId :: string
  totalCards :: nat
  cards :: "card_summary list"

text \<open>
  What a file holds: the value that \<^verbatim>\<open>JSON.stringify(value, null, 2)\<close> is applied to.
\<close>

datatype content = SpecJSON specFile | SummaryJSON summary

text \<open>
  The state of a run: the files written, in order, with their paths; \<^verbatim>\<open>allSpecs\<close>; and
  the lines of \<^verbatim>\<open>console.error\<close>. The lines of \<^verbatim>\<open>console.log\<close> are left out.
\<close>

record run =
  files :: "(string \<times> content) list"
  allSpecs :: "specFile list"
  stderr :: "string list"

definition OUTPUT_DIR :: string where
  "OUTPUT_DIR = ''./figma-extract''"

definition nodeIds :: "string list" where
  "nodeIds = [''21:5359'', ''21:5360'']"

text \<open>
  The body of the \<^verbatim>\<open>for\<close> loop: the \<^verbatim>\<open>try\<close> block, and the \<^verbatim>\<open>catch\<close> block for a thrown
  value. The message printed starts with a symbol outside the character range of the
  model, which is left out.
\<close>

definition extractNode ::
  "nodes_body network \<Rightarrow> string \<Rightarrow> string \<Rightarrow> run \<Rightarrow> string \<Rightarrow> run" where
  "extractNode fetch FILE_ID now st nodeId =
     (case getNodeDetails fetch FILE_ID nodeId of
        Inl err \<Rightarrow>
          st\<lparr>stderr := stderr st
                  @ [''Failed to extract node '' @ nodeId @ '': '' @ message err]\<rparr>
      | Inr nodeData \<Rightarrow>
          (case extractCardSpecs nodeData of
             None \<Rightarrow> st
           | Some specs \<Rightarrow>
               (let name = slugify (spec_name specs);
                    specFile = generateSpecFile now specs name
                in st\<lparr>files := files st
                          @ [(OUTPUT_DIR @ ''/'' @ name @ ''-specs.json'', SpecJSON specFile)],
                      allSpecs := allSpecs st @ [specFile]\<rparr>)))"

definition summary_of :: "string \<Rightarrow> string \<Rightarrow> specFile list \<Rightarrow> summary" where
  "summary_of now FILE_ID all =
     \<lparr>summary_extractedAt = now,
      fileId = FILE_ID,
      totalCards = length all,
      cards = map (\<lambda>spec.
                \<lparr>card_name = cardName spec,
                 card_children = length (spec_children (specifications spec)),
                 card_colors = length (designTokens_colors spec),
                 card_typography = length (designTokens_typography spec)\<rparr>) all\<rparr>"

text \<open>
  \<^verbatim>\<open>extractCardSpecifications()\<close> on a list of node IDs; the script runs it on
  \<open>nodeIds\<close>. \<open>FIGMA_TOKEN\<close> is the environment variable, absent or a string.
\<close>

definition extractCards ::
  "string list \<Rightarrow> string option \<Rightarrow> string \<Rightarrow> string \<Rightarrow> nodes_body network \<Rightarrow> error + run" where
  "extractCards ids FIGMA_TOKEN FILE_ID now fetch =
     (if \<not> truthy FIGMA_TOKEN
      then Inl (Error ''FIGMA_TOKEN environment variable is required'')
      else
        (let st = foldl (extractNode fetch FILE_ID now)
                    \<lparr>files = [], allSpecs = [], stderr = []\<rparr> ids
         in Inr (st\<lparr>files := files st
                        @ [(OUTPUT_DIR @ ''/extraction-summary.json'',
                            SummaryJSON (summary_of now FILE_ID (allSpecs st)))]\<rparr>)))"

definition extractCardSpecifications ::
  "string option \<Rightarrow> string \<Rightarrow> string \<Rightarrow> nodes_body network \<Rightarrow> error + run" where
  "extractCardSpecifications = extractCards nodeIds"

section \<open>The full-file exporter (figma-fetch.js)\<close>

text \<open>A JSON value.\<close>

datatype json =
  JNull | JBool bool | JNum number | JStr string | JArr "json list"
  | JObj "(string \<times> json) list"

text \<open>
  A request of \<^verbatim>\<open>figmaGet\<close>: the endpoint and the search parameters set on the URL. The
  network of this script is a function from the request.
\<close>

record request =
  req_endpoint :: string
  req_params :: "(string \<times> string) list"

type_synonym api = "request \<Rightarrow> error + json response"

text \<open>
  \<^verbatim>\<open>figmaGet(endpoint, token, params)\<close>; a parameter that is \<^verbatim>\<open>undefined\<close> (\<open>None\<close>) or
  empty is not set.
\<close>

definition figmaGet :: "api \<Rightarrow> string \<Rightarrow> (string \<times> string option) list \<Rightarrow> error + json" where
  "figmaGet fetch endpoint params =
     (case fetch \<lparr>req_endpoint = endpoint,
                  req_params =
                    concat (map (\<lambda>(k, v). case v of None \<Rightarrow> []
                                           | Some s \<Rightarrow> if s = [] then [] else [(k, s)]) params)\<rparr> of
        Inl e \<Rightarrow> Inl e
      | Inr res \<Rightarrow>
          if \<not> ok res
          then Inl (Error (''Figma API '' @ endpoint @ '' failed: ''
                 @ int_toString 10 (int (status res)) @ '' '' @ statusText res
                 @ '' -> '' @ body_text res))
          else body_json res)"




definition fetchFileVariables :: "api \<Rightarrow> string \<Rightarrow> error + json" where
  "fetchFileVariables fetch fileKey =
     figmaGet fetch (''/files/'' @ fileKey @ ''/variables'') []"





text \<open>
  The outcome of \<^verbatim>\<open>main\<close>: the files written, in order, each with the JSON value that
  is serialised into it; the lines of \<^verbatim>\<open>console.error\<close> inside \<^verbatim>\<open>main\<close>; and the
  rejection. \<^verbatim>\<open>Promise.all\<close> rejects with the reason of the promise that rejects first
  in time, which the model does not order: \<open>rejected\<close> lists the reasons of all the joined
  calls that reject, in the order of the array. It is empty when \<^verbatim>\<open>main\<close> resolves.
\<close>

record outcome =
  written :: "(string \<times> json) list"
  errors_logged :: "string list"
  rejected :: "error list"

text \<open>\<^verbatim>\<open>s.split(sep)\<close> with a one-character separator, and \<^verbatim>\<open>s.trim()\<close>.\<close>

fun split :: "char \<Rightarrow> string \<Rightarrow> string list" where
  "split sep [] = [[]]"
| "split sep (c # cs) =
     (if c = sep then [] # split sep cs
      else (case split sep cs of [] \<Rightarrow> [[c]] | w # ws \<Rightarrow> (c # w) # ws))"



text \<open>An object literal; \<^verbatim>\<open>JSON.stringify\<close> leaves out the \<^verbatim>\<open>undefined\<close> properties.\<close>

definition object :: "(string \<times> json option) list \<Rightarrow> json" where
  "object kvs =
     JObj (concat (map (\<lambda>(k, v). case v of None \<Rightarrow> [] | Some j \<Rightarrow> [(k, j)]) kvs))"



text \<open>\<^verbatim>\<open>fetchFileVariables(token, fileKey).catch((e) => ({ error: e.message }))\<close>\<close>

definition variables_or_error :: "api \<Rightarrow> string \<Rightarrow> error + json" where
  "variables_or_error fetch fileKey =
     (case fetchFileVariables fetch fileKey of
        Inl err \<Rightarrow> Inr (object [(''error'', Some (JStr (message err)))])
      | Inr v \<Rightarrow> Inr v)"



text \<open>An outcome with no file written.\<close>

definition failed :: "error list \<Rightarrow> outcome" where
  "failed reasons = \<lparr>written = [], errors_logged = [], rejected = reasons\<rparr>"


section \<open>Notions used to state the properties\<close>

subsection \<open>Colors\<close>












subsection \<open>Trees\<close>

text \<open>
  The proper descendants of a node in depth-first pre-order, each with its nesting depth,
  the children of the node itself being at depth \<open>d\<close>.
\<close>

fun descendants :: "nat \<Rightarrow> node \<Rightarrow> (node \<times> nat) list"
  and descendants_of_list :: "nat \<Rightarrow> node list \<Rightarrow> (node \<times> nat) list" where
  "descendants d (Node p cs) = descendants_of_list d cs"
| "descendants_of_list d [] = []"
| "descendants_of_list d (c # rest) =
     (c, d) # descendants (d + 1) c @ descendants_of_list d rest"

text \<open>The number of proper descendants of a node.\<close>

fun count_descendants :: "node \<Rightarrow> nat" where
  "count_descendants (Node p cs) = sum_list (map (\<lambda>c. 1 + count_descendants c) cs)"

text \<open>
  The downward paths that start at a child of the node: each is a chain of a node, one of
  its children, one of the children of that child and so on, every member with its
  nesting depth.
\<close>

fun paths :: "nat \<Rightarrow> node \<Rightarrow> (node \<times> nat) list list" where
  "paths d (Node p cs) =
     concat (map (\<lambda>c. [(c, d)] # map ((#) (c, d)) (paths (d + 1) c)) cs)"

text \<open>
  The strings that the script adds to \<open>colors\<close> and to \<open>typography\<close>, one for every
  occurrence: the first fill and the first stroke of the root when solid, the first fill
  of every descendant when solid, and the text style of every descendant with text.
\<close>

definition fill_occurrences :: "props \<Rightarrow> string list" where
  "fill_occurrences p =
     (case first_solid (fills p) of
        None \<Rightarrow> []
      | Some fill \<Rightarrow> [figmaColorToCSS (paint_color fill)])"

definition stroke_occurrences :: "props \<Rightarrow> string list" where
  "stroke_occurrences p =
     (case first_solid (strokes p) of
        None \<Rightarrow> []
      | Some stroke \<Rightarrow> [figmaColorToCSS (paint_color stroke)])"

definition text_occurrences :: "props \<Rightarrow> string list" where
  "text_occurrences p = (if has_text p then [JSON_stringify (getTextStyle p)] else [])"

definition color_occurrences :: "node \<Rightarrow> string list" where
  "color_occurrences doc =
     fill_occurrences (props doc) @ stroke_occurrences (props doc)
     @ concat (map (\<lambda>(c, k). fill_occurrences (props c)) (descendants 0 doc))"

definition typography_occurrences :: "node \<Rightarrow> string list" where
  "typography_occurrences doc =
     concat (map (\<lambda>(c, k). text_occurrences (props c)) (descendants 0 doc))"

subsection \<open>Example inputs\<close>

text \<open>A node with a name and a type and nothing else set.\<close>

definition blank :: "string \<Rightarrow> string \<Rightarrow> props" where
  "blank name type =
     \<lparr>node_id = ''1:'' @ name, node_name = name, node_type = type,
      absoluteBoundingBox = None, cornerRadius = None, fills = [], strokes = [],
      strokeWeight = None, style = None, characters = None\<rparr>"

definition solid :: "number \<Rightarrow> number \<Rightarrow> number \<Rightarrow> paint" where
  "solid i j k =
     \<lparr>paint_type = ''SOLID'',
      paint_color = Some \<lparr>col_r = i, col_g = j, col_b = k, col_a = Some 1\<rparr>\<rparr>"

text \<open>A frame with two children, the first of which has a child of its own.\<close>

definition nested_doc :: node where
  "nested_doc =
     Node (blank ''Frame'' ''FRAME'')
       [Node (blank ''A'' ''GROUP'') [Node (blank ''A1'' ''RECTANGLE'') []],
        Node (blank ''B'' ''RECTANGLE'') []]"

text \<open>
  A frame with a red fill and a red stroke, two children with the same red fill and two
  text children with the same style.
\<close>

definition repeated_doc :: node where
  "repeated_doc =
     Node ((blank ''Frame'' ''FRAME'')\<lparr>fills := [solid 1 0 0], strokes := [solid 1 0 0]\<rparr>)
       [Node ((blank ''A'' ''RECTANGLE'')\<lparr>fills := [solid 1 0 0]\<rparr>) [],
        Node ((blank ''B'' ''RECTANGLE'')\<lparr>fills := [solid 1 0 0]\<rparr>) [],
        Node ((blank ''T'' ''TEXT'')
                \<lparr>characters := Some ''one'',
                 style := Some \<lparr>fontFamily = Some ''Inter'', fontSize = Some 12,
                                fontWeight = None, letterSpacing = None,
                                lineHeightPx = None\<rparr>\<rparr>) [],
        Node ((blank ''U'' ''TEXT'')
                \<lparr>characters := Some ''two'',
                 style := Some \<lparr>fontFamily = Some ''Inter'', fontSize = Some 12,
                                fontWeight = None, letterSpacing = None,
                                lineHeightPx = None\<rparr>\<rparr>) []]"

text \<open>
  The scenario of the specification: a root with corner radius 16 and one solid white
  fill, a plain rectangle at (10, 10) of 100 by 20, and a text node.
\<close>

definition scenario_doc :: node where
  "scenario_doc =
     Node ((blank ''Card'' ''FRAME'')\<lparr>cornerRadius := Some 16, fills := [solid 1 1 1]\<rparr>)
       [Node ((blank ''Bar'' ''RECTANGLE'')
                \<lparr>absoluteBoundingBox :=
                   Some \<lparr>bb_x = Some 10, bb_y = Some 10, bb_width = Some 100,
                         bb_height = Some 20\<rparr>\<rparr>) [],
        Node ((blank ''Title'' ''TEXT'')
                \<lparr>characters := Some ''Balance'',
                 style := Some \<lparr>fontFamily = None, fontSize = Some 24,
                                fontWeight = Some 700, letterSpacing = None,
                                lineHeightPx = None\<rparr>\<rparr>) []]"

subsection \<open>Runs of the two scripts\<close>

text \<open>The URL that \<open>getNodeDetails\<close> requests for a node ID.\<close>

definition node_url :: "string \<Rightarrow> string \<Rightarrow> string" where
  "node_url FILE_ID nodeId =
     ''https://api.figma.com/v1/files/'' @ FILE_ID @ ''/nodes?ids='' @ nodeId"

text \<open>The fetch for a node ID fails: the call is rejected or the response is not a success.\<close>

definition fetch_fails :: "nodes_body network \<Rightarrow> string \<Rightarrow> string \<Rightarrow> bool" where
  "fetch_fails fetch FILE_ID nodeId =
     (case fetch (node_url FILE_ID nodeId) of Inl _ \<Rightarrow> True | Inr res \<Rightarrow> \<not> ok res)"

definition empty_run :: run where
  "empty_run = \<lparr>files = [], allSpecs = [], stderr = []\<rparr>"

text \<open>The files and the error lines that the loop body produces for one node ID.\<close>

definition node_output ::
  "nodes_body network \<Rightarrow> string \<Rightarrow> string \<Rightarrow> string \<Rightarrow> (string \<times> content) list" where
  "node_output fetch FILE_ID now nodeId = files (extractNode fetch FILE_ID now empty_run nodeId)"

definition node_errors ::
  "nodes_body network \<Rightarrow> string \<Rightarrow> string \<Rightarrow> string \<Rightarrow> string list" where
  "node_errors fetch FILE_ID now nodeId = stderr (extractNode fetch FILE_ID now empty_run nodeId)"

text \<open>
  A network that answers the request for the first node ID with 403 and any other request
  with a body that holds the scenario document under the second node ID.
\<close>

definition example_network :: "nodes_body network" where
  "example_network url =
     (if url = node_url ''KEY'' ''21:5359''
      then Inr \<lparr>ok = False, status = 403, statusText = ''Forbidden'', body_text = [],
                body_json = Inl (Error ''Unexpected end of JSON input'')\<rparr>
      else Inr \<lparr>ok = True, status = 200, statusText = ''OK'', body_text = [],
                body_json =
                  Inr \<lparr>nodes = Some [(''21:5360'', Some \<lparr>document = Some scenario_doc\<rparr>)]\<rparr>\<rparr>)"






section \<open>Properties of the color resolver\<close>














lemma colorMap_tokens: "\<forall>(k, t) \<in> set colorMap. t \<noteq> []"
  by (simp add: colorMap_def)

lemma mapToDesignToken_lookup:
  "mapToDesignToken (Some c) =
     (case map_of colorMap (hexKey c) of
        None \<Rightarrow> figmaColorToCSS (Some c)
      | Some token \<Rightarrow> token)"
proof (cases "map_of colorMap (hexKey c)")
  case None
  then show ?thesis by (simp add: mapToDesignToken_def)
next
  case (Some t)
  then have "(hexKey c, t) \<in> set colorMap" by (rule map_of_SomeD)
  with colorMap_tokens have "t \<noteq> []" by auto
  with Some show ?thesis by (simp add: mapToDesignToken_def)
qed















text \<open>
  C7. For a missing color, \<open>mapToDesignToken\<close> returns the token of the primary text
  color, \<open>var(--fg-text)\<close>: a constant, no channel being read.
\<close>

theorem mapToDesignToken_missing: "mapToDesignToken None = ''var(--fg-text)''"
  by (simp add: mapToDesignToken_def)

text \<open>
  C10. Two colors with the same \<open>r\<close>, \<open>g\<close>, \<open>b\<close> have the same hex key, whatever their
  alpha channels. When the key is in the table, both resolve to the same value, a token of
  the table; when it is not, each resolves to its own \<open>rgba\<close> string, the only output
  that shows the alpha channel.
\<close>

theorem mapToDesignToken_alpha_insensitive:
  assumes "col_r c1 = col_r c2" and "col_g c1 = col_g c2" and "col_b c1 = col_b c2"
  shows "hexKey c1 = hexKey c2
       \<and> (hexKey c1 \<in> fst ` set colorMap \<longrightarrow>
            mapToDesignToken (Some c1) = mapToDesignToken (Some c2)
            \<and> mapToDesignToken (Some c1) \<in> snd ` set colorMap)
       \<and> (hexKey c1 \<notin> fst ` set colorMap \<longrightarrow>
            mapToDesignToken (Some c1) = figmaColorToCSS (Some c1)
            \<and> mapToDesignToken (Some c2) = figmaColorToCSS (Some c2))"
proof -
  have k: "hexKey c1 = hexKey c2" using assms by (simp add: hexKey_def)
  have hit: "mapToDesignToken (Some c1) = mapToDesignToken (Some c2)
             \<and> mapToDesignToken (Some c1) \<in> snd ` set colorMap"
    if "hexKey c1 \<in> fst ` set colorMap"
  proof -
    from that obtain t where t: "map_of colorMap (hexKey c1) = Some t"
      by (metis map_of_eq_None_iff not_Some_eq)
    then have "(hexKey c1, t) \<in> set colorMap" by (rule map_of_SomeD)
    then have "t \<in> snd ` set colorMap" by force
    with t k show ?thesis by (simp add: mapToDesignToken_lookup)
  qed
  have miss: "mapToDesignToken (Some c1) = figmaColorToCSS (Some c1)
              \<and> mapToDesignToken (Some c2) = figmaColorToCSS (Some c2)"
    if "hexKey c1 \<notin> fst ` set colorMap"
  proof -
    from that have "map_of colorMap (hexKey c1) = None" by (simp add: map_of_eq_None_iff)
    with k show ?thesis by (simp add: mapToDesignToken_lookup)
  qed
  from k hit miss show ?thesis by blast
qed

theorem mapToDesignToken_alpha_insensitive_witness:
  "hexKey \<lparr>col_r = 1, col_g = 1, col_b = 1, col_a = Some (1 / 2)\<rparr> \<in> fst ` set colorMap
   \<and> mapToDesignToken (Some \<lparr>col_r = 1, col_g = 1, col_b = 1, col_a = Some (1 / 2)\<rparr>)
       = ''var(--white)''
   \<and> mapToDesignToken (Some \<lparr>col_r = 1, col_g = 1, col_b = 1, col_a = Some 1\<rparr>)
       = ''var(--white)''
   \<and> hexKey \<lparr>col_r = 1, col_g = 0, col_b = 0, col_a = Some (1 / 2)\<rparr> \<notin> fst ` set colorMap
   \<and> mapToDesignToken (Some \<lparr>col_r = 1, col_g = 0, col_b = 0, col_a = Some (1 / 2)\<rparr>)
       = ''rgba(255, 0, 0, 0.5)''
   \<and> mapToDesignToken (Some \<lparr>col_r = 1, col_g = 0, col_b = 0, col_a = None\<rparr>)
       = ''rgba(255, 0, 0, 1)''"
proof -
  let ?w1 = "\<lparr>col_r = 1, col_g = 1, col_b = 1, col_a = Some (1 / 2)\<rparr>"
  let ?w2 = "\<lparr>col_r = 1, col_g = 1, col_b = 1, col_a = Some 1\<rparr>"
  let ?r1 = "\<lparr>col_r = 1, col_g = 0, col_b = 0, col_a = Some (1 / 2)\<rparr>"
  let ?r2 = "\<lparr>col_r = 1, col_g = 0, col_b = 0, col_a = None\<rparr>"
  have in_table: "hexKey ?w1 \<in> fst ` set colorMap" by code_simp
  have opaque: "mapToDesignToken (Some ?w2) = ''var(--white)''" by code_simp
  have no_key: "hexKey ?r1 \<notin> fst ` set colorMap" by code_simp
  have css1: "figmaColorToCSS (Some ?r1) = ''rgba(255, 0, 0, 0.5)''" by code_simp
  have css2: "figmaColorToCSS (Some ?r2) = ''rgba(255, 0, 0, 1)''" by code_simp
  from mapToDesignToken_alpha_insensitive[of ?w1 ?w2] in_table
  have "mapToDesignToken (Some ?w1) = mapToDesignToken (Some ?w2)" by simp
  moreover from mapToDesignToken_alpha_insensitive[of ?r1 ?r2] no_key
  have "mapToDesignToken (Some ?r1) = figmaColorToCSS (Some ?r1)"
    and "mapToDesignToken (Some ?r2) = figmaColorToCSS (Some ?r2)" by simp_all
  ultimately show ?thesis using in_table opaque no_key css1 css2 by simp
qed

section \<open>Properties of the tree walker\<close>

lemma spec_children_visit:
  "spec_children (visit p d s) = spec_children s @ [childSpecOf p d]"
  by (simp add: visit_def)

lemma spec_children_traverse:
  "spec_children (traverseChildren n d s) =
     spec_children s @ map (\<lambda>(c, k). childSpecOf (props c) k) (descendants d n)"
  "spec_children (forEach_child cs d s) =
     spec_children s @ map (\<lambda>(c, k). childSpecOf (props c) k) (descendants_of_list d cs)"
  by (induction n d s and cs d s rule: traverseChildren_forEach_child.induct)
    (simp_all add: spec_children_visit)

lemma length_descendants:
  "length (descendants d n) = count_descendants n"
  "length (descendants_of_list d cs) = sum_list (map (\<lambda>c. 1 + count_descendants c) cs)"
  by (induction d n and d cs rule: descendants_descendants_of_list.induct) simp_all

lemma paths_nonempty: "p \<in> set (paths d n) \<Longrightarrow> p \<noteq> []"
  by (cases n) auto

lemma map_last_Cons: "\<forall>p \<in> set ps. p \<noteq> [] \<Longrightarrow> map last (map ((#) x) ps) = map last ps"
  by (induction ps) auto

lemma last_paths:
  "map last (paths d n) = descendants d n"
  "map last (concat (map (\<lambda>c. [(c, d)] # map ((#) (c, d)) (paths (d + 1) c)) cs)) =
     descendants_of_list d cs"
proof (induction d n and d cs rule: descendants_descendants_of_list.induct)
  case (1 d p cs)
  then show ?case by simp
next
  case (2 d)
  then show ?case by simp
next
  case (3 d c rest)
  have "map last (map ((#) (c, d)) (paths (d + 1) c)) = map last (paths (d + 1) c)"
    by (rule map_last_Cons) (auto dest: paths_nonempty)
  with 3 show ?case by simp
qed

lemma path_depths: "p \<in> set (paths d n) \<Longrightarrow> map snd p = [d..<d + length p]"
proof (induction d n arbitrary: p rule: paths.induct)
  case (1 d q cs)
  from "1.prems" obtain c where c: "c \<in> set cs"
    and p: "p = [(c, d)] \<or> (\<exists>t \<in> set (paths (d + 1) c). p = (c, d) # t)"
    by auto
  from p show ?case
  proof
    assume "p = [(c, d)]"
    then show ?thesis by simp
  next
    assume "\<exists>t \<in> set (paths (d + 1) c). p = (c, d) # t"
    then obtain t where t: "t \<in> set (paths (d + 1) c)" "p = (c, d) # t" by auto
    from "1.IH"[OF c t(1)] have "map snd t = [d + 1..<d + 1 + length t]" .
    moreover have "[d..<d + length p] = d # [d + 1..<d + 1 + length t]"
      using t(2) by (subst upt_rec) simp
    ultimately show ?thesis using t(2) by simp
  qed
qed

text \<open>
  C2. The tree walker appends one entry for every descendant of the document, \<open>N\<close>
  entries for \<open>N\<close> descendants, in depth-first pre-order; the entry of a descendant is its
  child specification at its nesting depth, the children of the root being at depth 0.
  Every entry is the end of a downward path from a child of the root, and along every
  such path the depths are 0, 1, 2 and so on, hence non-decreasing.
\<close>

theorem traverseChildren_preorder:
  "\<exists>s. extractCardSpecs (Some \<lparr>document = Some doc\<rparr>) = Some s
     \<and> spec_children s = map (\<lambda>(c, k). childSpecOf (props c) k) (descendants 0 doc)
     \<and> length (spec_children s) = count_descendants doc
     \<and> map depth (spec_children s) = map snd (descendants 0 doc)
     \<and> descendants 0 doc = map last (paths 0 doc)
     \<and> (\<forall>p \<in> set (paths 0 doc). map snd p = [0..<length p] \<and> sorted (map snd p))"
proof -
  let ?s = "traverseChildren doc 0 (rootSpecs (props doc))"
  have root: "spec_children (rootSpecs q) = []" for q
    by (simp add: rootSpecs_def Let_def split: option.splits list.splits)
  have ch: "spec_children ?s = map (\<lambda>(c, k). childSpecOf (props c) k) (descendants 0 doc)"
    by (simp add: spec_children_traverse root)
  have dep: "map depth (spec_children ?s) = map snd (descendants 0 doc)"
    unfolding ch by (simp add: childSpecOf_def case_prod_unfold comp_def)
  have pth: "map snd p = [0..<length p] \<and> sorted (map snd p)" if "p \<in> set (paths 0 doc)" for p
    using path_depths[OF that] by simp
  have "extractCardSpecs (Some \<lparr>document = Some doc\<rparr>) = Some ?s"
    by (simp add: extractCardSpecs_def)
  with ch dep pth show ?thesis
    by (simp add: length_descendants last_paths)
qed

theorem traverseChildren_preorder_witness:
  "\<exists>s. extractCardSpecs (Some \<lparr>document = Some nested_doc\<rparr>) = Some s
     \<and> map (\<lambda>e. (child_name e, depth e)) (spec_children s) =
         [(''A'', 0), (''A1'', 1), (''B'', 0)]
     \<and> length (spec_children s) = 3"
proof -
  from traverseChildren_preorder[of nested_doc] obtain s where
    s: "extractCardSpecs (Some \<lparr>document = Some nested_doc\<rparr>) = Some s"
    and ch: "spec_children s =
               map (\<lambda>(c, k). childSpecOf (props c) k) (descendants 0 nested_doc)"
    by blast
  have "map (\<lambda>e. (child_name e, depth e))
          (map (\<lambda>(c, k). childSpecOf (props c) k) (descendants 0 nested_doc)) =
        [(''A'', 0), (''A1'', 1), (''B'', 0)]"
    by code_simp
  with ch have m: "map (\<lambda>e. (child_name e, depth e)) (spec_children s) =
                    [(''A'', 0), (''A1'', 1), (''B'', 0)]"
    by simp
  then have "length (map (\<lambda>e. (child_name e, depth e)) (spec_children s)) = 3" by simp
  then have "length (spec_children s) = 3" by simp
  with s m show ?thesis by (intro exI[of _ s]) simp
qed

section \<open>Properties of the color and typography sets\<close>

lemma distinct_Set_add: "distinct xs \<Longrightarrow> distinct (Set_add xs v)"
  by (simp add: Set_add_def)

lemma set_Set_add: "set (Set_add xs v) = insert v (set xs)"
  by (auto simp: Set_add_def)

lemma length_Set_add: "length (Set_add xs v) \<le> length xs + 1"
  by (simp add: Set_add_def)

lemma foldl_Set_add:
  "distinct xs \<Longrightarrow> distinct (foldl Set_add xs vs)"
  "set (foldl Set_add xs vs) = set xs \<union> set vs"
  "length (foldl Set_add xs vs) \<le> length xs + length vs"
proof (induction vs arbitrary: xs)
  case Nil
  { case 1 then show ?case by simp }
  { case 2 show ?case by simp }
  { case 3 show ?case by simp }
next
  case (Cons v vs)
  { case 1 then show ?case by (simp add: Cons.IH(1) distinct_Set_add) }
  { case 2 show ?case by (simp add: Cons.IH(2) set_Set_add) }
  { case 3
    have "length (foldl Set_add (Set_add xs v) vs) \<le> length (Set_add xs v) + length vs"
      by (rule Cons.IH(3))
    with length_Set_add[of xs v] show ?case by simp }
qed

lemma colors_visit: "colors (visit p d s) = foldl Set_add (colors s) (fill_occurrences p)"
  by (simp add: visit_def fill_occurrences_def split: option.splits)

lemma typography_visit:
  "typography (visit p d s) = foldl Set_add (typography s) (text_occurrences p)"
  by (simp add: visit_def text_occurrences_def)

lemma colors_traverse:
  "colors (traverseChildren n d s) =
     foldl Set_add (colors s) (concat (map (\<lambda>(c, k). fill_occurrences (props c)) (descendants d n)))"
  "colors (forEach_child cs d s) =
     foldl Set_add (colors s)
       (concat (map (\<lambda>(c, k). fill_occurrences (props c)) (descendants_of_list d cs)))"
  by (induction n d s and cs d s rule: traverseChildren_forEach_child.induct)
    (simp_all add: colors_visit)

lemma typography_traverse:
  "typography (traverseChildren n d s) =
     foldl Set_add (typography s)
       (concat (map (\<lambda>(c, k). text_occurrences (props c)) (descendants d n)))"
  "typography (forEach_child cs d s) =
     foldl Set_add (typography s)
       (concat (map (\<lambda>(c, k). text_occurrences (props c)) (descendants_of_list d cs)))"
  by (induction n d s and cs d s rule: traverseChildren_forEach_child.induct)
    (simp_all add: typography_visit)

lemma colors_rootSpecs:
  "colors (rootSpecs p) = foldl Set_add [] (fill_occurrences p @ stroke_occurrences p)"
  by (simp add: rootSpecs_def fill_occurrences_def stroke_occurrences_def first_solid_def
      Let_def split: option.splits list.splits)

lemma typography_rootSpecs: "typography (rootSpecs p) = []"
  by (simp add: rootSpecs_def Let_def split: option.splits list.splits)

text \<open>
  C9. After \<open>extractCardSpecs\<close>, the set of colors holds exactly the color strings of
  the solid fill and stroke occurrences met, each once, so it has at most as many members
  as there are occurrences; the same holds of the typography set and the text style
  occurrences.
\<close>

theorem extractCardSpecs_sets_bounded:
  "\<exists>s. extractCardSpecs (Some \<lparr>document = Some doc\<rparr>) = Some s
     \<and> distinct (colors s) \<and> set (colors s) = set (color_occurrences doc)
     \<and> length (colors s) \<le> length (color_occurrences doc)
     \<and> distinct (typography s) \<and> set (typography s) = set (typography_occurrences doc)
     \<and> length (typography s) \<le> length (typography_occurrences doc)"
proof -
  let ?s = "traverseChildren doc 0 (rootSpecs (props doc))"
  have c: "colors ?s = foldl Set_add [] (color_occurrences doc)"
    by (simp add: colors_traverse colors_rootSpecs color_occurrences_def)
  have t: "typography ?s = foldl Set_add [] (typography_occurrences doc)"
    by (simp add: typography_traverse typography_rootSpecs typography_occurrences_def)
  have "extractCardSpecs (Some \<lparr>document = Some doc\<rparr>) = Some ?s"
    by (simp add: extractCardSpecs_def)
  moreover have "distinct (colors ?s)" "distinct (typography ?s)"
    unfolding c t by (rule foldl_Set_add(1), simp)+
  moreover have "set (colors ?s) = set (color_occurrences doc)"
    "set (typography ?s) = set (typography_occurrences doc)"
    unfolding c t by (simp_all add: foldl_Set_add(2))
  moreover have "length (colors ?s) \<le> length (color_occurrences doc)"
    "length (typography ?s) \<le> length (typography_occurrences doc)"
    unfolding c t
    using foldl_Set_add(3)[of "[]" "color_occurrences doc"]
      foldl_Set_add(3)[of "[]" "typography_occurrences doc"] by simp_all
  ultimately show ?thesis by (intro exI[of _ ?s]) simp
qed

theorem extractCardSpecs_sets_bounded_witness:
  "\<exists>s. extractCardSpecs (Some \<lparr>document = Some repeated_doc\<rparr>) = Some s
     \<and> length (color_occurrences repeated_doc) = 4 \<and> length (colors s) \<le> 4
     \<and> set (colors s) = {''rgba(255, 0, 0, 1)''}
     \<and> length (typography_occurrences repeated_doc) = 2 \<and> length (typography s) \<le> 2
     \<and> distinct (typography s)"
proof -
  from extractCardSpecs_sets_bounded[of repeated_doc] obtain s where
    s: "extractCardSpecs (Some \<lparr>document = Some repeated_doc\<rparr>) = Some s"
    and c: "set (colors s) = set (color_occurrences repeated_doc)"
      "length (colors s) \<le> length (color_occurrences repeated_doc)"
    and t: "distinct (typography s)"
      "length (typography s) \<le> length (typography_occurrences repeated_doc)"
    by blast
  have oc: "color_occurrences repeated_doc = replicate 4 ''rgba(255, 0, 0, 1)''"
    by code_simp
  have ot: "length (typography_occurrences repeated_doc) = 2"
    by code_simp
  have "length (color_occurrences repeated_doc) = 4"
    "set (color_occurrences repeated_doc) = {''rgba(255, 0, 0, 1)''}"
    unfolding oc by simp_all
  with s c t ot show ?thesis by (intro exI[of _ s]) simp
qed

section \<open>Properties of the name slugifier\<close>

lemma slug_char_lower: "is_slug_char c \<Longrightarrow> lower_char c = c"
  by (auto simp: is_slug_char_def lower_char_def Let_def)

lemma slug_char_not_space: "is_slug_char c \<Longrightarrow> \<not> is_space c"
  by (auto simp: is_slug_char_def is_space_def Let_def)

lemma replace_spaces_slug: "\<forall>c \<in> set s. is_slug_char c \<Longrightarrow> replace_spaces s = s"
  by (induction s) (simp_all add: slug_char_not_space)

lemma slugify_slug:
  assumes "\<forall>c \<in> set s. is_slug_char c"
  shows "slugify s = s"
proof -
  have "toLowerCase s = s" using assms by (simp add: toLowerCase_def slug_char_lower map_idI)
  with assms show ?thesis by (simp add: slugify_def replace_spaces_slug)
qed

text \<open>
  C8. The slugifier is idempotent: applied to its own output, it returns that output.
\<close>

theorem slugify_idempotent: "slugify (slugify name) = slugify name"
proof -
  have "\<forall>c \<in> set (slugify name). is_slug_char c" by (simp add: slugify_def)
  then show ?thesis by (rule slugify_slug)
qed

theorem slugify_idempotent_witness:
  "slugify ''Balance  Pie-Chart (v2)!'' = ''balance-pie-chart-v2''
   \<and> slugify ''balance-pie-chart-v2'' = ''balance-pie-chart-v2''"
proof -
  have e: "slugify ''Balance  Pie-Chart (v2)!'' = ''balance-pie-chart-v2''" by code_simp
  from slugify_idempotent[of "''Balance  Pie-Chart (v2)!''"] show ?thesis
    unfolding e by (simp add: e)
qed

section \<open>The end-to-end scenario\<close>

text \<open>
  C1. On the scenario, \<open>extractCardSpecs\<close> gives two children and the rule block of the
  root contains \<open>border-radius: 16px;\<close>. The rule block of the text child contains
  \<open>fontSize: 24px;\<close> and \<open>fontWeight: 700;\<close>, the keys of the text style object as they
  are; the generated style sheet contains neither \<open>font-size: 24px;\<close> nor
  \<open>font-weight: 700;\<close>.
\<close>

theorem scenario_css:
  "(case extractCardSpecs (Some \<lparr>document = Some scenario_doc\<rparr>) of
      None \<Rightarrow> False
    | Some s \<Rightarrow>
        length (spec_children s) = 2
        \<and> sublist ''border-radius: 16px;'' (root_block s)
        \<and> sublist ''fontSize: 24px;'' (child_block (slugify (spec_name s)) (spec_children s ! 1))
        \<and> sublist ''fontWeight: 700;'' (child_block (slugify (spec_name s)) (spec_children s ! 1))
        \<and> \<not> sublist ''font-size: 24px;'' (generateCSSClasses s)
        \<and> \<not> sublist ''font-weight: 700;'' (generateCSSClasses s))"
  by code_simp

section \<open>Properties of the batch extractor\<close>

lemma getNodeDetails_fails:
  "fetch_fails fetch FILE_ID nodeId \<Longrightarrow> \<exists>err. getNodeDetails fetch FILE_ID nodeId = Inl err"
  by (auto simp: fetch_fails_def getNodeDetails_def figmaRequest_def node_url_def
      split: sum.splits)

lemma extractNode_fails:
  assumes "fetch_fails fetch FILE_ID nodeId"
  shows "files (extractNode fetch FILE_ID now st nodeId) = files st"
    and "allSpecs (extractNode fetch FILE_ID now st nodeId) = allSpecs st"
    and "\<exists>line. stderr (extractNode fetch FILE_ID now st nodeId) = stderr st @ [line]"
  using getNodeDetails_fails[OF assms] by (auto simp: extractNode_def)

lemma extractNode_files:
  "files (extractNode fetch FILE_ID now st nodeId) =
     files st @ node_output fetch FILE_ID now nodeId"
  by (simp add: node_output_def extractNode_def empty_run_def Let_def
      split: sum.splits option.splits)

lemma extractNode_stderr:
  "stderr (extractNode fetch FILE_ID now st nodeId) =
     stderr st @ node_errors fetch FILE_ID now nodeId"
  by (simp add: node_errors_def extractNode_def empty_run_def Let_def
      split: sum.splits option.splits)

lemma foldl_extractNode_files:
  "files (foldl (extractNode fetch FILE_ID now) st ids) =
     files st @ concat (map (node_output fetch FILE_ID now) ids)"
  by (induction ids arbitrary: st) (simp_all add: extractNode_files)

lemma foldl_extractNode_stderr:
  "stderr (foldl (extractNode fetch FILE_ID now) st ids) =
     stderr st @ concat (map (node_errors fetch FILE_ID now) ids)"
  by (induction ids arbitrary: st) (simp_all add: extractNode_stderr)

lemma node_output_fails:
  assumes "fetch_fails fetch FILE_ID nodeId"
  shows "node_output fetch FILE_ID now nodeId = []"
  using extractNode_fails(1)[OF assms, of now empty_run]
  by (simp add: node_output_def empty_run_def)

lemma node_errors_fails:
  assumes "fetch_fails fetch FILE_ID nodeId"
  shows "length (node_errors fetch FILE_ID now nodeId) = 1"
  using extractNode_fails(3)[OF assms, of now empty_run]
  by (auto simp: node_errors_def empty_run_def)

lemma concat_skip_failed:
  "concat (map (node_output fetch FILE_ID now) ids) =
     concat (map (node_output fetch FILE_ID now)
               (filter (\<lambda>i. \<not> fetch_fails fetch FILE_ID i) ids))"
  by (induction ids) (simp_all add: node_output_fails)

text \<open>
  C3. In the batch extractor with the token set, the run ends normally whatever fetches
  fail. The files written are those of the node IDs of the hardcoded list whose fetch
  does not fail, in the order of the list, each as if it were processed alone, and then
  the summary; a node ID whose fetch fails (a rejected call or a non-success response,
  such as 403) has no file written and one line printed on the error stream.
\<close>

theorem extractCardSpecifications_isolates_failures:
  assumes "truthy FIGMA_TOKEN"
  shows "\<exists>st. extractCardSpecifications FIGMA_TOKEN FILE_ID now fetch = Inr st
     \<and> files st =
         concat (map (node_output fetch FILE_ID now)
                   (filter (\<lambda>i. \<not> fetch_fails fetch FILE_ID i) nodeIds))
         @ [(OUTPUT_DIR @ ''/extraction-summary.json'',
             SummaryJSON (summary_of now FILE_ID (allSpecs st)))]
     \<and> stderr st = concat (map (node_errors fetch FILE_ID now) nodeIds)
     \<and> (\<forall>i \<in> set nodeIds. fetch_fails fetch FILE_ID i \<longrightarrow>
           node_output fetch FILE_ID now i = []
           \<and> length (node_errors fetch FILE_ID now i) = 1)"
proof -
  let ?st = "foldl (extractNode fetch FILE_ID now) empty_run nodeIds"
  let ?end = "?st\<lparr>files := files ?st
                       @ [(OUTPUT_DIR @ ''/extraction-summary.json'',
                           SummaryJSON (summary_of now FILE_ID (allSpecs ?st)))]\<rparr>"
  have run: "extractCardSpecifications FIGMA_TOKEN FILE_ID now fetch = Inr ?end"
    using assms
    by (simp add: extractCardSpecifications_def extractCards_def empty_run_def Let_def)
  have f: "files ?st =
             concat (map (node_output fetch FILE_ID now)
                       (filter (\<lambda>i. \<not> fetch_fails fetch FILE_ID i) nodeIds))"
    using concat_skip_failed[of fetch FILE_ID now nodeIds]
    by (simp add: foldl_extractNode_files empty_run_def)
  have e: "stderr ?st = concat (map (node_errors fetch FILE_ID now) nodeIds)"
    by (simp add: foldl_extractNode_stderr empty_run_def)
  show ?thesis
    by (intro exI[of _ ?end]) (simp add: run f e node_output_fails node_errors_fails)
qed

theorem extractCardSpecifications_isolates_failures_witness:
  "truthy (Some ''token'') \<and> fetch_fails example_network ''KEY'' ''21:5359''
   \<and> (\<exists>st. extractCardSpecifications (Some ''token'') ''KEY'' ''now'' example_network = Inr st
        \<and> map fst (files st) =
            [''./figma-extract/card-specs.json'', ''./figma-extract/extraction-summary.json'']
        \<and> stderr st = [''Failed to extract node 21:5359: Figma API error: Forbidden''])"
proof -
  have t: "truthy (Some ''token'')" by (simp add: truthy_def)
  have bad: "fetch_fails example_network ''KEY'' ''21:5359''" by code_simp
  from extractCardSpecifications_isolates_failures[OF t, of "''KEY''" "''now''" example_network]
  obtain st where
    st: "extractCardSpecifications (Some ''token'') ''KEY'' ''now'' example_network = Inr st"
    and f: "files st =
         concat (map (node_output example_network ''KEY'' ''now'')
                   (filter (\<lambda>i. \<not> fetch_fails example_network ''KEY'' i) nodeIds))
         @ [(OUTPUT_DIR @ ''/extraction-summary.json'',
             SummaryJSON (summary_of ''now'' ''KEY'' (allSpecs st)))]"
    and e: "stderr st = concat (map (node_errors example_network ''KEY'' ''now'') nodeIds)"
    by blast
  have ef: "map fst (concat (map (node_output example_network ''KEY'' ''now'')
                   (filter (\<lambda>i. \<not> fetch_fails example_network ''KEY'' i) nodeIds))) =
            [''./figma-extract/card-specs.json'']"
    by code_simp
  have ee: "concat (map (node_errors example_network ''KEY'' ''now'') nodeIds) =
            [''Failed to extract node 21:5359: Figma API error: Forbidden'']"
    by code_simp
  have "map fst (files st) =
          [''./figma-extract/card-specs.json'', ''./figma-extract/extraction-summary.json'']"
    unfolding f by (simp add: ef OUTPUT_DIR_def)
  with t bad st e ee show ?thesis by (intro conjI exI[of _ st]) simp_all
qed

section \<open>Properties of the full-file exporter\<close>



lemma variables_or_error_Inr: "\<exists>v. variables_or_error fetch fileKey = Inr v"
  by (simp add: variables_or_error_def split: sum.splits)









end
